theory Spec2Isabelle
  imports Complex_Main
begin

section \<open>The on-axis field of a bifilar coil pair\<close>

text \<open>
  An embedding of \<^verbatim>\<open>Programs/Magnetic-Field Programs/Bifilar-Coil Placement.py\<close>:
  the two functions \<^verbatim>\<open>bz_from_loop\<close> and \<^verbatim>\<open>total_bz\<close>.

  Arithmetic is exact: a Python float is a \<^typ>\<open>real\<close>, so rounding, overflow and
  underflow of IEEE doubles are not part of this model, and neither is the
  \<^verbatim>\<open>OverflowError\<close> that Python's \<^verbatim>\<open>**\<close> raises on a float whose power leaves the
  range of a double. The model gives the value the program computes up to rounding; it
  does not decide a property that hangs on the last bit of a double or on its range.
  What the model does keep of floating point is the value that is not a finite number:
  numpy divides elementwise and yields \<^verbatim>\<open>nan\<close> for \<^verbatim>\<open>0/0\<close> and an infinity for
  \<^verbatim>\<open>x/0\<close> (plain Python floats raise \<^verbatim>\<open>ZeroDivisionError\<close> there). An array element
  is therefore a \<^typ>\<open>real option\<close>, with \<^term>\<open>None\<close> for "no finite value"; once an
  element is not finite, adding to it never makes it finite again.
\<close>

type_synonym npfloat = "real option"

subsection \<open>Elementwise arithmetic\<close>

definition np_divide :: "real \<Rightarrow> real \<Rightarrow> npfloat" where
  "np_divide x y = (if y = 0 then None else Some (x / y))"

fun np_add :: "npfloat \<Rightarrow> npfloat \<Rightarrow> npfloat" where
  "np_add (Some a) (Some b) = Some (a + b)"
| "np_add _ _ = None"

text \<open>\<^verbatim>\<open>bz += v\<close> on two arrays of one shape.\<close>

definition np_iadd :: "npfloat list \<Rightarrow> npfloat list \<Rightarrow> npfloat list" where
  "np_iadd bz v = map2 np_add bz v"

text \<open>\<^verbatim>\<open>np.zeros_like(z_range)\<close>: an array of the grid's shape, filled with \<^verbatim>\<open>0.0\<close>.\<close>

definition np_zeros_like :: "real list \<Rightarrow> npfloat list" where
  "np_zeros_like z_range = replicate (length z_range) (Some 0)"

text \<open>
  \<^verbatim>\<open>int(turns)\<close> on a float truncates toward zero, and \<^verbatim>\<open>range(k)\<close> runs
  \<open>k\<close> times, no time at all when \<open>k \<le> 0\<close>.
\<close>

definition py_int :: "real \<Rightarrow> int" where
  "py_int t = (if 0 \<le> t then \<lfloor>t\<rfloor> else \<lceil>t\<rceil>)"

definition range_len :: "int \<Rightarrow> nat" where
  "range_len k = nat k"

subsection \<open>The single loop\<close>

text \<open>
  \<^verbatim>\<open>
  def bz_from_loop(I, R, z0, z):
      mu_0 = 4 * np.pi * 1e-7
      return (mu_0 * I * R**2) / (2 * ((R**2 + (z - z0)**2)**(1.5)))
  \<close>
  The base of the power \<^verbatim>\<open>**(1.5)\<close> is a sum of two squares, never negative.
\<close>

definition bz_from_loop :: "real \<Rightarrow> real \<Rightarrow> real \<Rightarrow> real \<Rightarrow> npfloat" where
  "bz_from_loop I R z0 z =
     (let mu_0 = 4 * pi * (1 / 10 ^ 7)
      in np_divide (mu_0 * I * R ^ 2) (2 * ((R ^ 2 + (z - z0) ^ 2) powr 1.5)))"

text \<open>The same call with an array for \<^verbatim>\<open>z\<close>: numpy broadcasts the scalars.\<close>

definition bz_from_loop_array :: "real \<Rightarrow> real \<Rightarrow> real \<Rightarrow> real list \<Rightarrow> npfloat list" where
  "bz_from_loop_array I R z0 z_range = map (bz_from_loop I R z0) z_range"

subsection \<open>The coil pair\<close>

text \<open>
  \<^verbatim>\<open>
  def total_bz(z_range, spacing, turns, R, I):
      bz = np.zeros_like(z_range)
      for n in range(int(turns)):
          z1 = -spacing / 2
          z2 = spacing / 2
          bz += bz_from_loop(I, R, z1, z_range)
          bz += bz_from_loop(I, R, z2, z_range)
      return bz
  \<close>
  The loop is a recursion on the number of iterations left, with the accumulator
  \<^verbatim>\<open>bz\<close> passed along.
\<close>

fun total_bz_loop :: "nat \<Rightarrow> real list \<Rightarrow> real \<Rightarrow> real \<Rightarrow> real \<Rightarrow> npfloat list \<Rightarrow> npfloat list" where
  "total_bz_loop 0 z_range spacing R I bz = bz"
| "total_bz_loop (Suc n) z_range spacing R I bz =
     (let z1 = - spacing / 2;
          z2 = spacing / 2;
          bz1 = np_iadd bz (bz_from_loop_array I R z1 z_range);
          bz2 = np_iadd bz1 (bz_from_loop_array I R z2 z_range)
      in total_bz_loop n z_range spacing R I bz2)"

definition total_bz :: "real list \<Rightarrow> real \<Rightarrow> real \<Rightarrow> real \<Rightarrow> real \<Rightarrow> npfloat list" where
  "total_bz z_range spacing turns R I =
     total_bz_loop (range_len (py_int turns)) z_range spacing R I (np_zeros_like z_range)"

subsection \<open>Notation of the statements\<close>

text \<open>
  A real multiple of an array element, for the statements that compare a curve with
  \<open>N\<close> times another: no finite value stays no finite value.
\<close>

definition np_scale :: "real \<Rightarrow> npfloat \<Rightarrow> npfloat" where
  "np_scale c x = map_option (\<lambda>b. c * b) x"

text \<open>
  What one pass of the loop body adds at the position \<open>z\<close>: the field of the loop at
  \<open>z1\<close> plus the field of the loop at \<open>z2\<close>.
\<close>

definition pair_bz :: "real \<Rightarrow> real \<Rightarrow> real \<Rightarrow> real \<Rightarrow> npfloat" where
  "pair_bz spacing R I z =
     np_add (bz_from_loop I R (- spacing / 2) z) (bz_from_loop I R (spacing / 2) z)"

section \<open>Lemmas on the model\<close>

subsection \<open>Array elements\<close>

lemma np_add_commute: "np_add x y = np_add y x"
  by (cases x; cases y) simp_all

lemma np_scale_simps [simp]:
  "np_scale c None = None" "np_scale c (Some b) = Some (c * b)"
  by (simp_all add: np_scale_def)

lemma np_scale_1: "np_scale 1 x = x"
  by (cases x) simp_all

lemma np_add_first_turn: "np_add (np_add (Some 0) x) y = np_scale 1 (np_add x y)"
  by (cases x; cases y) simp_all

lemma np_add_next_turn:
  "np_add (np_add (np_scale k (np_add x y)) x) y = np_scale (k + 1) (np_add x y)"
  by (cases x; cases y) (simp_all add: algebra_simps)

lemma np_iadd_map: "np_iadd (map f zs) (map g zs) = map (\<lambda>z. np_add (f z) (g z)) zs"
  by (induction zs) (simp_all add: np_iadd_def)

lemma np_iadd_zeros:
  "np_iadd (np_zeros_like zs) (map g zs) = map (\<lambda>z. np_add (Some 0) (g z)) zs"
  by (induction zs) (simp_all add: np_iadd_def np_zeros_like_def)

subsection \<open>The turn count\<close>

lemma py_int_of_nat: "py_int (real n) = int n"
  by (simp add: py_int_def)

lemma py_int_of_int: "py_int (of_int k) = k"
  by (simp add: py_int_def)

subsection \<open>The loop, in closed form\<close>

text \<open>
  Once the accumulator holds \<open>k\<close> times the contribution of one turn, \<open>n\<close> more passes
  leave \<open>k + n\<close> times that contribution.
\<close>

lemma total_bz_loop_scaled:
  "total_bz_loop n zs s R I (map (\<lambda>z. np_scale k (pair_bz s R I z)) zs) =
   map (\<lambda>z. np_scale (k + real n) (pair_bz s R I z)) zs"
proof (induction n arbitrary: k)
  case 0
  show ?case by simp
next
  case (Suc n)
  have "total_bz_loop (Suc n) zs s R I (map (\<lambda>z. np_scale k (pair_bz s R I z)) zs) =
        total_bz_loop n zs s R I (map (\<lambda>z. np_scale (k + 1) (pair_bz s R I z)) zs)"
    by (simp add: bz_from_loop_array_def np_iadd_map pair_bz_def np_add_next_turn)
  also have "\<dots> = map (\<lambda>z. np_scale (k + 1 + real n) (pair_bz s R I z)) zs"
    by (rule Suc.IH)
  finally show ?case by (simp add: ac_simps)
qed

lemma total_bz_loop_zeros:
  "total_bz_loop (Suc n) zs s R I (np_zeros_like zs) =
   map (\<lambda>z. np_scale (real (Suc n)) (pair_bz s R I z)) zs"
proof -
  have "total_bz_loop (Suc n) zs s R I (np_zeros_like zs) =
        total_bz_loop n zs s R I (map (\<lambda>z. np_scale 1 (pair_bz s R I z)) zs)"
    by (simp add: bz_from_loop_array_def np_iadd_zeros np_iadd_map pair_bz_def np_add_first_turn)
  then show ?thesis by (simp add: total_bz_loop_scaled add.commute)
qed

lemma total_bz_turns:
  "total_bz zs s t R I =
     (case range_len (py_int t) of
        0 \<Rightarrow> replicate (length zs) (Some 0)
      | Suc n \<Rightarrow> map (\<lambda>z. np_scale (real (Suc n)) (pair_bz s R I z)) zs)"
proof (cases "range_len (py_int t)")
  case 0
  then show ?thesis by (simp add: total_bz_def np_zeros_like_def)
next
  case (Suc n)
  then show ?thesis by (simp only: total_bz_def total_bz_loop_zeros nat.case)
qed

lemma total_bz_nat:
  "0 < N \<Longrightarrow> total_bz zs s (real N) R I = map (\<lambda>z. np_scale (real N) (pair_bz s R I z)) zs"
  by (cases N) (simp_all add: total_bz_turns py_int_of_nat range_len_def del: of_nat_Suc)

lemma total_bz_one: "total_bz zs s 1 R I = map (pair_bz s R I) zs"
  using total_bz_nat [of 1 zs s R I] by (simp add: np_scale_1)

lemma total_bz_py_int: "total_bz zs s t R I = total_bz zs s (of_int (py_int t)) R I"
  by (simp add: total_bz_def py_int_of_int)

lemma length_total_bz_loop:
  "length bz = length zs \<Longrightarrow> length (total_bz_loop n zs s R I bz) = length zs"
  by (induction n arbitrary: bz) (simp_all add: np_iadd_def bz_from_loop_array_def Let_def)

lemma length_total_bz: "length (total_bz zs s t R I) = length zs"
  by (simp add: total_bz_def length_total_bz_loop np_zeros_like_def)

subsection \<open>The single loop\<close>

lemma denominator_zero_iff:
  "2 * ((R ^ 2 + (z - z0) ^ 2) powr (1.5::real)) = 0 \<longleftrightarrow> R = 0 \<and> z = z0"
proof -
  have "R ^ 2 + (z - z0) ^ 2 = 0 \<longleftrightarrow> R = 0 \<and> z = z0"
    by (simp add: sum_power2_eq_zero_iff)
  then show ?thesis by simp
qed

lemma bz_from_loop_cases:
  "bz_from_loop I R z0 z =
     (if R = 0 \<and> z = z0 then None
      else Some (4 * pi * (1 / 10 ^ 7) * I * R ^ 2 / (2 * ((R ^ 2 + (z - z0) ^ 2) powr 1.5))))"
  unfolding bz_from_loop_def Let_def np_divide_def denominator_zero_iff by simp

lemma bz_from_loop_finite:
  "R \<noteq> 0 \<Longrightarrow> bz_from_loop I R z0 z =
     Some (4 * pi * (1 / 10 ^ 7) * I * R ^ 2 / (2 * ((R ^ 2 + (z - z0) ^ 2) powr 1.5)))"
  by (simp only: bz_from_loop_cases) simp

lemma mu_0_value: "4 * pi * (1 / 10 ^ 7) = 4 * pi * 10 powr (-7)"
  by (simp add: powr_minus_divide)

lemma bz_from_loop_mirror: "bz_from_loop I R (- z0) (- z) = bz_from_loop I R z0 z"
proof -
  have "(- z - - z0) ^ 2 = (z - z0) ^ 2"
    by (simp add: power2_commute)
  then show ?thesis
    by (simp add: bz_from_loop_def)
qed

lemma pair_bz_mirror: "pair_bz s R I (- z) = pair_bz s R I z"
proof -
  have "bz_from_loop I R (- s / 2) (- z) = bz_from_loop I R (s / 2) z"
    using bz_from_loop_mirror [of I R "s / 2" z] by simp
  moreover have "bz_from_loop I R (s / 2) (- z) = bz_from_loop I R (- s / 2) z"
    using bz_from_loop_mirror [of I R "- s / 2" z] by simp
  ultimately show ?thesis
    unfolding pair_bz_def by (simp only: np_add_commute)
qed

text \<open>Farther from the centre of a loop, its field is strictly weaker.\<close>

lemma loop_field_decreasing:
  fixes c R u v :: real
  assumes "0 < c" "R \<noteq> 0" "\<bar>u\<bar> < \<bar>v\<bar>"
  shows "c / (2 * ((R ^ 2 + v ^ 2) powr 1.5)) < c / (2 * ((R ^ 2 + u ^ 2) powr 1.5))"
proof -
  have "\<bar>u\<bar> ^ 2 < \<bar>v\<bar> ^ 2"
    using assms(3) by (intro power_strict_mono) simp_all
  then have "u ^ 2 < v ^ 2" by simp
  have pos: "0 < R ^ 2 + u ^ 2"
    using assms(2) by (simp add: add_pos_nonneg)
  then have "(R ^ 2 + u ^ 2) powr 1.5 < (R ^ 2 + v ^ 2) powr 1.5"
    using \<open>u ^ 2 < v ^ 2\<close> by (intro powr_less_mono2) simp_all
  moreover have "0 < (R ^ 2 + u ^ 2) powr 1.5"
    using assms(2) by (simp add: sum_power2_eq_zero_iff)
  ultimately show ?thesis
    using assms(1) by (simp add: frac_less2)
qed

lemma total_bz_point:
  assumes "R \<noteq> 0" "0 < N"
  shows "total_bz [z] s (real N) R I =
    [Some (real N *
       (4 * pi * (1 / 10 ^ 7) * I * R ^ 2 / (2 * ((R ^ 2 + (z + s / 2) ^ 2) powr 1.5)) +
        4 * pi * (1 / 10 ^ 7) * I * R ^ 2 / (2 * ((R ^ 2 + (z - s / 2) ^ 2) powr 1.5))))]"
  by (simp add: total_bz_nat [OF assms(2)] pair_bz_def bz_from_loop_finite [OF assms(1)])

section \<open>Facts of exact arithmetic\<close>

text \<open>
  The lemmas of this section hold of the model because its arithmetic is exact. Each of
  them is about something that, in the program, the arithmetic of doubles decides: the
  exact equality of two computed values, the strict order of two computed values,
  whether a computed denominator is zero. The order of the additions, rounding, underflow
  and overflow are not in the model, so none of these lemmas is a statement about what
  the program computes in doubles.
\<close>

subsection \<open>Linearity in the current\<close>

lemma bz_from_loop_current:
  "bz_from_loop (c * I) R z0 z = np_scale c (bz_from_loop I R z0 z)"
  by (simp add: bz_from_loop_cases)

lemma np_scale_add: "np_scale c (np_add x y) = np_add (np_scale c x) (np_scale c y)"
  by (cases x; cases y) (simp_all add: algebra_simps)

lemma np_scale_swap: "np_scale k (np_scale c x) = np_scale c (np_scale k x)"
  by (cases x) simp_all

lemma pair_bz_current: "pair_bz s R (c * I) z = np_scale c (pair_bz s R I z)"
  by (simp add: pair_bz_def bz_from_loop_current np_scale_add)

lemma total_bz_current_linear:
  "total_bz zs s t R (c * I) = map (np_scale c) (total_bz zs s t R I)"
  by (simp add: total_bz_turns pair_bz_current np_scale_swap split: nat.split)

subsection \<open>Mirror symmetry\<close>

lemma exact_total_bz_symmetric:
  "total_bz (map uminus zs) s t R I = total_bz zs s t R I"
  by (simp add: total_bz_turns pair_bz_mirror comp_def split: nat.split)

subsection \<open>Fall-off along the positive axis\<close>

lemma exact_total_bz_falls_off:
  assumes "0 < s" "0 < R" "0 < I" "1 \<le> N" "max R (s / 2) < z" "z < z'"
  shows "\<exists>b b'. total_bz [z] s (real N) R I = [Some b]
           \<and> total_bz [z'] s (real N) R I = [Some b'] \<and> \<bar>b'\<bar> < \<bar>b\<bar>"
proof -
  define c where "c = 4 * pi * (1 / 10 ^ 7) * I * R ^ 2"
  define f where "f u = c / (2 * ((R ^ 2 + u ^ 2) powr 1.5))" for u
  have "R \<noteq> 0" "0 < N" using assms by simp_all
  have "0 < c" using assms by (simp add: c_def)
  have fpos: "0 < f u" for u
    using \<open>0 < c\<close> \<open>R \<noteq> 0\<close> by (simp add: f_def add_pos_nonneg)
  have fmono: "f v < f u" if "\<bar>u\<bar> < \<bar>v\<bar>" for u v
    unfolding f_def using \<open>0 < c\<close> \<open>R \<noteq> 0\<close> that by (rule loop_field_decreasing)
  have at: "total_bz [x] s (real N) R I = [Some (real N * (f (x + s / 2) + f (x - s / 2)))]" for x
    unfolding f_def c_def by (rule total_bz_point [OF \<open>R \<noteq> 0\<close> \<open>0 < N\<close>])
  have "s / 2 < z" using assms(5) by simp
  have "f (z' + s / 2) < f (z + s / 2)"
    using assms(1,6) \<open>s / 2 < z\<close> by (intro fmono) simp
  moreover have "f (z' - s / 2) < f (z - s / 2)"
    using assms(6) \<open>s / 2 < z\<close> by (intro fmono) simp
  ultimately have "f (z' + s / 2) + f (z' - s / 2) < f (z + s / 2) + f (z - s / 2)"
    by simp
  then have "real N * (f (z' + s / 2) + f (z' - s / 2)) < real N * (f (z + s / 2) + f (z - s / 2))"
    using \<open>0 < N\<close> by simp
  moreover have "0 < real N * (f (z' + s / 2) + f (z' - s / 2))"
    using \<open>0 < N\<close> fpos by (simp add: add_pos_pos)
  ultimately have "\<bar>real N * (f (z' + s / 2) + f (z' - s / 2))\<bar>
      < \<bar>real N * (f (z + s / 2) + f (z - s / 2))\<bar>"
    by linarith
  with at [of z] at [of z'] show ?thesis by blast
qed

subsection \<open>The denominator\<close>

lemma exact_denominator_positive:
  assumes "0 < R"
  shows "0 < 2 * ((R ^ 2 + (z - z0) ^ 2) powr (1.5::real))
     \<and> (\<exists>b. bz_from_loop I R z0 z = Some b)"
proof -
  from assms have "R \<noteq> 0" by simp
  then have "2 * ((R ^ 2 + (z - z0) ^ 2) powr (1.5::real)) \<noteq> 0"
    unfolding denominator_zero_iff by simp
  moreover have "0 \<le> 2 * ((R ^ 2 + (z - z0) ^ 2) powr (1.5::real))" by simp
  ultimately have "0 < 2 * ((R ^ 2 + (z - z0) ^ 2) powr (1.5::real))" by linarith
  moreover from \<open>R \<noteq> 0\<close> have "\<exists>b. bz_from_loop I R z0 z = Some b"
    by (simp add: bz_from_loop_cases)
  ultimately show ?thesis by blast
qed

section \<open>The properties of the specification\<close>

text \<open>
  C1. For every current \<open>I\<close>, radius \<open>R\<close>, loop centre \<open>z0\<close> and position \<open>z\<close>,
  \<^verbatim>\<open>bz_from_loop\<close> returns \<open>(\<mu>0 I R\<^sup>2) / (2 (R\<^sup>2 + (z - z0)\<^sup>2) powr (3/2))\<close> with
  \<open>\<mu>0 = 4 \<pi> 10 powr (-7)\<close>, and elementwise so when \<open>z\<close> is a vector. At the one point
  where the quotient is \<open>0/0\<close> (\<open>R = 0\<close> and \<open>z = z0\<close>) the code has no finite value.
\<close>

theorem bz_from_loop_formula:
  "bz_from_loop I R z0 z =
     (if R = 0 \<and> z = z0 then None
      else Some ((4 * pi * 10 powr (-7) * I * R ^ 2) / (2 * (R ^ 2 + (z - z0) ^ 2) powr (3 / 2))))
   \<and> bz_from_loop_array I R z0 zs =
     map (\<lambda>z. if R = 0 \<and> z = z0 then None
       else Some ((4 * pi * 10 powr (-7) * I * R ^ 2) / (2 * (R ^ 2 + (z - z0) ^ 2) powr (3 / 2)))) zs"
proof -
  have exponent: "(1.5 :: real) = 3 / 2" by simp
  have point: "bz_from_loop I R z0 u =
     (if R = 0 \<and> u = z0 then None
      else Some ((4 * pi * 10 powr (-7) * I * R ^ 2) / (2 * (R ^ 2 + (u - z0) ^ 2) powr (3 / 2))))"
    for u
    unfolding bz_from_loop_cases mu_0_value exponent by (rule refl)
  show ?thesis
    unfolding bz_from_loop_array_def point by simp
qed

theorem bz_from_loop_formula_witness:
  "bz_from_loop 3 1 0 0 = Some ((4 * pi * 10 powr (-7) * 3 * 1 ^ 2) / (2 * (1 ^ 2 + (0 - 0) ^ 2) powr (3 / 2)))
   \<and> bz_from_loop 3 0 5 5 = None"
  using bz_from_loop_formula [of 3 1 0 0 "[]"] bz_from_loop_formula [of 3 0 5 5 "[]"]
  by simp

text \<open>
  C2. For every grid, spacing \<open>s\<close>, positive integer turn count \<open>N\<close>, radius \<open>R\<close> and
  current \<open>I\<close>, \<^verbatim>\<open>total_bz\<close> returns at each grid point what \<open>N\<close> passes of the loop
  accumulate from the coil at \<open>-s/2\<close> and the coil at \<open>+s/2\<close>, which is
  \<open>N * (B(z; z1) + B(z; z2))\<close>; the output is as long as the grid.
\<close>

theorem total_bz_accumulates:
  assumes "0 < N"
  shows "total_bz zs s (real N) R I =
      map (\<lambda>z. np_scale (real N)
             (np_add (bz_from_loop I R (- s / 2) z) (bz_from_loop I R (s / 2) z))) zs
    \<and> length (total_bz zs s (real N) R I) = length zs"
  using total_bz_nat [OF assms, of zs s R I] by (simp add: pair_bz_def)

theorem total_bz_accumulates_witness:
  "(0::nat) < 3 \<and> total_bz [0, 1] 1 (real 3) 1 1 =
      map (\<lambda>z. np_scale (real 3)
             (np_add (bz_from_loop 1 1 (- 1 / 2) z) (bz_from_loop 1 1 (1 / 2) z))) [0, 1]
    \<and> length (total_bz [0, 1] 1 (real 3) 1 1) = length [0 :: real, 1]"
  using total_bz_accumulates [of 3 "[0, 1]" 1 1 1] by simp

text \<open>
  C3. For every spacing, radius and current and every positive integer \<open>N\<close>, the output
  of \<^verbatim>\<open>total_bz\<close> with \<open>N\<close> turns is, pointwise, \<open>N\<close> times its output with one turn.
  In exact arithmetic the two are equal, so they agree within every tolerance.
\<close>

theorem total_bz_turns_scale:
  assumes "0 < N"
  shows "total_bz zs s (real N) R I = map (np_scale (real N)) (total_bz zs s 1 R I)"
  by (simp add: total_bz_nat [OF assms] total_bz_one)

theorem total_bz_turns_scale_witness:
  "(0::nat) < 10 \<and>
   total_bz [0, 1] 1 (real 10) 1 1 = map (np_scale (real 10)) (total_bz [0, 1] 1 1 1 1)"
  using total_bz_turns_scale [of 10 "[0, 1]" 1 1 1] by simp

text \<open>
  C6. For every spacing \<open>s\<close> and radius \<open>R\<close>, with current 1 and one turn, the total
  field at \<open>z = 0\<close> is \<open>\<mu>0 R\<^sup>2 / (2 (R\<^sup>2 + (s/2)\<^sup>2) powr 1.5) * 2\<close>: both coils
  contribute the same at the midpoint. Where the quotient is \<open>0/0\<close> (\<open>R = 0\<close> and
  \<open>s = 0\<close>) the code has no finite value.
\<close>

theorem total_bz_midpoint:
  "total_bz [0] s 1 R 1 =
     [if R = 0 \<and> s = 0 then None
      else Some (4 * pi * 10 powr (-7) * R ^ 2 / (2 * (R ^ 2 + (s / 2) ^ 2) powr 1.5) * 2)]"
proof (cases "R = 0")
  case True
  show ?thesis
  proof (cases "s = 0")
    case True
    with \<open>R = 0\<close> show ?thesis
      by (simp add: total_bz_one pair_bz_def bz_from_loop_cases)
  next
    case False
    with \<open>R = 0\<close> show ?thesis
      by (simp add: total_bz_one pair_bz_def bz_from_loop_cases)
  qed
next
  case False
  then show ?thesis
    using total_bz_point [of R 1 0 s 1] by (simp add: powr_minus_divide)
qed

theorem total_bz_midpoint_witness:
  "total_bz [0] 2 1 1 1 =
     [Some (4 * pi * 10 powr (-7) * 1 ^ 2 / (2 * (1 ^ 2 + (2 / 2) ^ 2) powr 1.5) * 2)]
   \<and> total_bz [0] 0 1 0 1 = [None]"
  using total_bz_midpoint [of 2 1] total_bz_midpoint [of 0 0] by simp

text \<open>
  C10. For a real turn count \<open>t\<close>, \<^verbatim>\<open>total_bz\<close> behaves as if the count were
  \<^verbatim>\<open>int(t)\<close>, truncated toward zero: for \<open>0 \<le> t < 1\<close> the loop runs no pass and the
  curve is all zeros, and for \<open>t > 1\<close> the result is that of \<open>\<lfloor>t\<rfloor>\<close> turns.
\<close>

theorem total_bz_truncates_turns:
  "total_bz zs s t R I = total_bz zs s (of_int (py_int t)) R I
   \<and> (0 \<le> t \<and> t < 1 \<longrightarrow> total_bz zs s t R I = replicate (length zs) (Some 0))
   \<and> (1 < t \<longrightarrow> total_bz zs s t R I = total_bz zs s (of_int \<lfloor>t\<rfloor>) R I)"
proof (intro conjI impI)
  show "total_bz zs s t R I = total_bz zs s (of_int (py_int t)) R I"
    by (rule total_bz_py_int)
next
  assume "0 \<le> t \<and> t < 1"
  then have "py_int t = 0"
    by (simp add: py_int_def floor_eq_iff)
  then show "total_bz zs s t R I = replicate (length zs) (Some 0)"
    by (simp add: total_bz_def range_len_def np_zeros_like_def)
next
  assume "1 < t"
  then have "py_int t = \<lfloor>t\<rfloor>"
    by (simp add: py_int_def)
  then show "total_bz zs s t R I = total_bz zs s (of_int \<lfloor>t\<rfloor>) R I"
    using total_bz_py_int [of zs s t R I] by simp
qed

theorem total_bz_truncates_turns_witness:
  "total_bz [0, 1] 1 (1 / 2) 1 1 = replicate (length [0 :: real, 1]) (Some 0)
   \<and> total_bz [0, 1] 1 (5 / 2) 1 1 = total_bz [0, 1] 1 (of_int 2) 1 1"
  using total_bz_truncates_turns [of "[0, 1]" 1 "1 / 2" 1 1, THEN conjunct2]
    total_bz_truncates_turns [of "[0, 1]" 1 "5 / 2" 1 1, THEN conjunct2]
  by simp

end
